theory Spec2Isabelle
  imports Complex_Main "HOL-Library.Char_ord" "HOL-Library.List_Lexorder"
    "HOL-Library.AList" "HOL-Library.Word"
begin

section \<open>The voice-chat hook \<open>useVoiceChat\<close>: data model\<close>

text \<open>
  The hook keeps React state (\<open>useState\<close>), mutable references (\<open>useRef\<close>) and talks
  to three platform collaborators: the media devices (capture stream, analyser, animation
  frames, audio elements), the simple-peer connections and the realtime relay channel.
  The model is one record holding all of it; every callback of the hook is a function on
  that record.  JavaScript objects that are mutated after creation (tracks of a stream,
  audio elements) live in a store indexed by an address; calls on collaborators whose
  effect is only observable outside the hook (\<open>peer.destroy()\<close>, \<open>channel.send\<close>,
  \<open>channel.subscribe\<close>) are recorded in sets and logs.

  Identities are JavaScript strings; \<open>a < b\<close> on them is the lexicographic order on the
  sequence of code units, which is the order of \<open>char list\<close> here.  Levels and volumes
  are JavaScript numbers; every value the hook computes from them is a quotient of a sum
  of bytes by a power of two, which is exact in binary floating point, so they are
  modelled as rationals.
\<close>

datatype js_error = TypeError | NotAllowedError

record voice_user =
  user_id :: string
  user_nickname :: string
  user_isMuted :: bool
  user_isSpeaking :: bool
  user_audioLevel :: rat

record activity_payload =
  payload_userId :: string
  payload_isSpeaking :: bool
  payload_audioLevel :: rat
  payload_isMuted :: bool

record signal_payload =
  payload_target :: string
  payload_from :: string
  payload_signal :: string

datatype relay_message =
  VoiceActivity activity_payload
  | WebRTCSignal signal_payload

record media_track =
  track_enabled :: bool
  track_ended :: bool

record media_stream =
  audioTracks :: "media_track list"
  videoTracks :: "media_track list"

datatype context_state = CtxRunning | CtxSuspended | CtxClosed

record analyser_node =
  fftSize :: nat
  smoothingTimeConstant :: rat

text \<open>A simple-peer instance: the options given to \<open>new Peer\<close> and the \<open>targetUser\<close>
  its event handlers close over.\<close>

record peer_inst =
  peer_id :: nat
  peer_target :: string
  peer_initiator :: bool
  peer_stream :: "nat option"

record audio_el =
  audio_srcObject :: "nat option"
  audio_autoplay :: bool
  audio_volume :: rat
  audio_inBody :: bool
  audio_paused :: bool

text \<open>The two places where \<open>connectToVoice\<close> waits for a promise.\<close>

datatype await_point = AwaitUserMedia | AwaitTrack

record hook =
  \<comment> \<open>props\<close>
  channelId :: string
  nickname :: string
  isEnabled :: bool
  \<comment> \<open>useState\<close>
  isConnected :: bool
  isMuted :: bool
  isDeafened :: bool
  voiceUsers :: "voice_user list"
  audioLevel :: rat
  connectionError :: "string option"
  \<comment> \<open>useRef\<close>
  localStreamRef :: "nat option"
  audioContextRef :: "context_state option"
  analyserRef :: "analyser_node option"
  animationFrameRef :: "nat option"
  peersRef :: "(string \<times> peer_inst) list"
  channelRef :: "nat option"
  remoteAudiosRef :: "(string \<times> nat) list"
  \<comment> \<open>values of state variables frozen in memoised callbacks\<close>
  playRemoteAudio_isDeafened :: bool
  detectVoice_isMuted :: bool
  \<comment> \<open>media platform\<close>
  getUserMediaCalls :: nat
  streams :: "nat \<Rightarrow> media_stream"
  streamCount :: nat
  pendingFrames :: "nat set"
  frameCount :: nat
  audios :: "nat \<Rightarrow> audio_el"
  audioCount :: nat
  \<comment> \<open>simple-peer\<close>
  createdPeers :: "peer_inst list"
  destroyedPeers :: "nat set"
  signalled :: "(nat \<times> string) list"
  \<comment> \<open>relay\<close>
  channelCount :: nat
  subscribed :: "nat set"
  tracked :: "nat set"
  sent :: "(nat \<times> relay_message) list"
  \<comment> \<open>calls of \<open>connectToVoice\<close> that wait for a promise\<close>
  suspended :: "await_point list"

text \<open>
  \<open>peersRef\<close> and \<open>remoteAudiosRef\<close> are JavaScript \<open>Map\<close>s: association lists in
  insertion order, \<open>set\<close> being \<open>AList.update\<close>, \<open>delete\<close> being \<open>AList.delete\<close> and
  \<open>get\<close>/\<open>has\<close> being \<open>map_of\<close>.

  \<open>playRemoteAudio_isDeafened\<close>: \<open>playRemoteAudio\<close> reads \<open>isDeafened\<close> from the render
  in which it was created.  It is only ever called from the \<open>stream\<close> handler that
  \<open>createPeer\<close> registers, and \<open>createPeer\<close> is memoised with the dependency list
  \<open>[nickname]\<close>; the handlers of \<open>connectToVoice\<close> in turn keep the \<open>createPeer\<close> of the
  render in which the connection was started.  So the \<open>isDeafened\<close> that
  \<open>playRemoteAudio\<close> sees is the one of the render in which \<open>createPeer\<close> was created,
  not the current state.  Likewise \<open>detectVoice_isMuted\<close>: \<open>initializeAudio\<close> is memoised
  with \<open>[]\<close> and starts the \<open>startVoiceActivityDetection\<close> of the first render.
  The props are fixed for the lifetime of the modelled hook instance, so both frozen
  values are the \<open>useState\<close> defaults of the first render.

  \<open>suspended\<close> belongs to the JavaScript run time, not to the hook: it lists the calls of
  \<open>connectToVoice\<close> that have reached an \<open>await\<close> and have not been resumed.  The hook
  itself keeps no record of them and no function of the hook reads or writes the list.
\<close>

definition mount :: "string \<Rightarrow> string \<Rightarrow> bool \<Rightarrow> hook" where
  "mount ch nick en =
    \<lparr> channelId = ch, nickname = nick, isEnabled = en,
      isConnected = False, isMuted = False, isDeafened = False, voiceUsers = [],
      audioLevel = 0, connectionError = None,
      localStreamRef = None, audioContextRef = None, analyserRef = None,
      animationFrameRef = None, peersRef = [], channelRef = None, remoteAudiosRef = [],
      playRemoteAudio_isDeafened = False, detectVoice_isMuted = False,
      getUserMediaCalls = 0,
      streams = (\<lambda>_. \<lparr>audioTracks = [], videoTracks = []\<rparr>), streamCount = 0,
      pendingFrames = {}, frameCount = 1,
      audios = (\<lambda>_. \<lparr>audio_srcObject = None, audio_autoplay = False, audio_volume = 1,
                        audio_inBody = False, audio_paused = True\<rparr>),
      audioCount = 0,
      createdPeers = [], destroyedPeers = {}, signalled = [],
      channelCount = 0, subscribed = {}, tracked = {}, sent = [],
      suspended = [] \<rparr>"

section \<open>Remote audio outputs and peer connections\<close>

definition removeRemoteAudio :: "string \<Rightarrow> hook \<Rightarrow> hook" where
  "removeRemoteAudio userId s =
    (case map_of (remoteAudiosRef s) userId of
       None \<Rightarrow> s
     | Some a \<Rightarrow>
         s\<lparr> audios := (audios s)(a := (audios s a)\<lparr> audio_srcObject := None,
                                                  audio_inBody := False,
                                                  audio_paused := True \<rparr>),
            remoteAudiosRef := AList.delete userId (remoteAudiosRef s) \<rparr>)"

definition playRemoteAudio :: "nat \<Rightarrow> string \<Rightarrow> hook \<Rightarrow> hook" where
  "playRemoteAudio stream userId s =
    (let s1 = removeRemoteAudio userId s;
         a = audioCount s1;
         audio = \<lparr> audio_srcObject = Some stream, audio_autoplay = True,
                   audio_volume = (if playRemoteAudio_isDeafened s1 then 0 else 1),
                   audio_inBody = True, audio_paused = False \<rparr>
     in s1\<lparr> audios := (audios s1)(a := audio), audioCount := a + 1,
             remoteAudiosRef := AList.update userId a (remoteAudiosRef s1) \<rparr>)"

definition createPeer :: "string \<Rightarrow> bool \<Rightarrow> hook \<Rightarrow> peer_inst \<times> hook" where
  "createPeer targetUser initiator s =
    (let peer = \<lparr> peer_id = length (createdPeers s), peer_target = targetUser,
                  peer_initiator = initiator, peer_stream = localStreamRef s \<rparr>
     in (peer, s\<lparr> createdPeers := createdPeers s @ [peer],
                  peersRef := AList.update targetUser peer (peersRef s) \<rparr>))"

text \<open>\<open>peer.destroy()\<close>.\<close>

definition destroy :: "peer_inst \<Rightarrow> hook \<Rightarrow> hook" where
  "destroy peer s = s\<lparr> destroyedPeers := insert (peer_id peer) (destroyedPeers s) \<rparr>"

text \<open>The handlers \<open>createPeer\<close> registers on the new peer; \<open>p\<close> is the peer whose event
  fires, its \<open>targetUser\<close> is the one the handler closed over.\<close>

definition on_peer_signal :: "peer_inst \<Rightarrow> string \<Rightarrow> hook \<Rightarrow> hook" where
  "on_peer_signal p data s =
    (case channelRef s of
       None \<Rightarrow> s
     | Some c \<Rightarrow> s\<lparr> sent := sent s @ [(c, WebRTCSignal \<lparr> payload_target = peer_target p,
                                  payload_from = nickname s, payload_signal = data \<rparr>)] \<rparr>)"

definition on_peer_stream :: "peer_inst \<Rightarrow> nat \<Rightarrow> hook \<Rightarrow> hook" where
  "on_peer_stream p remoteStream s = playRemoteAudio remoteStream (peer_target p) s"

definition on_peer_error :: "peer_inst \<Rightarrow> hook \<Rightarrow> hook" where
  "on_peer_error p s = s\<lparr> peersRef := AList.delete (peer_target p) (peersRef s) \<rparr>"

definition on_peer_close :: "peer_inst \<Rightarrow> hook \<Rightarrow> hook" where
  "on_peer_close p s =
    removeRemoteAudio (peer_target p)
      (s\<lparr> peersRef := AList.delete (peer_target p) (peersRef s) \<rparr>)"

text \<open>
  The peer library (simple-peer) is not part of the repository.  It reports a fatal error
  of a connection through its own \<open>destroy(err)\<close>: the connection is closed, then
  \<open>error\<close> is emitted and \<open>close\<close> right after it.  So the \<open>error\<close> handler never runs
  without the \<open>close\<close> handler following.
\<close>

definition destroy_with_error :: "peer_inst \<Rightarrow> hook \<Rightarrow> hook" where
  "destroy_with_error p s = on_peer_close p (on_peer_error p (destroy p s))"

section \<open>Audio capture and voice activity detection\<close>

definition requestAnimationFrame :: "hook \<Rightarrow> nat \<times> hook" where
  "requestAnimationFrame s =
    (frameCount s, s\<lparr> pendingFrames := insert (frameCount s) (pendingFrames s),
                      frameCount := frameCount s + 1 \<rparr>)"

definition cancelAnimationFrame :: "nat \<Rightarrow> hook \<Rightarrow> hook" where
  "cancelAnimationFrame i s = s\<lparr> pendingFrames := pendingFrames s - {i} \<rparr>"

definition frequencyBinCount :: "analyser_node \<Rightarrow> nat" where
  "frequencyBinCount an = fftSize an div 2"

text \<open>\<open>dataArray.reduce((a, b) => a + b) / dataArray.length\<close> on the bytes the analyser
  wrote, and the level derived from it.\<close>

definition average :: "8 word list \<Rightarrow> rat" where
  "average dataArray = of_nat (sum_list (map unat dataArray)) / of_nat (length dataArray)"

definition normalizedLevel :: "8 word list \<Rightarrow> rat" where
  "normalizedLevel dataArray = min (average dataArray / 128) 1"

text \<open>
  One run of \<open>detectVoice\<close>; \<open>dataArray\<close> is the contents of the byte array after
  \<open>getByteFrequencyData\<close>.  \<open>reduce\<close> without an initial value throws on an empty array.
\<close>

definition detectVoice :: "8 word list \<Rightarrow> hook \<Rightarrow> js_error + hook" where
  "detectVoice dataArray s =
    (case analyserRef s of
       None \<Rightarrow> Inr s
     | Some an \<Rightarrow>
         if dataArray = [] then Inl TypeError
         else
           let level = normalizedLevel dataArray;
               s1 = s\<lparr> audioLevel := level \<rparr>;
               s2 = (case channelRef s1 of
                       None \<Rightarrow> s1
                     | Some c \<Rightarrow>
                         if level > 5 / 100
                         then s1\<lparr> sent := sent s1 @
                                [(c, VoiceActivity \<lparr> payload_userId = nickname s1,
                                       payload_isSpeaking = (level > 15 / 100),
                                       payload_audioLevel = level,
                                       payload_isMuted = detectVoice_isMuted s1 \<rparr>)] \<rparr>
                         else s1);
               (i, s3) = requestAnimationFrame s2
           in Inr (s3\<lparr> animationFrameRef := Some i \<rparr>))"

definition startVoiceActivityDetection :: "8 word list \<Rightarrow> hook \<Rightarrow> js_error + hook" where
  "startVoiceActivityDetection dataArray s =
    (case analyserRef s of
       None \<Rightarrow> Inr s
     | Some an \<Rightarrow> detectVoice dataArray s)"

section \<open>Connecting\<close>

text \<open>
  \<open>connectToVoice\<close> is an \<open>async\<close> function: it runs to its first \<open>await\<close>, and is
  resumed when the awaited promise settles.  It suspends on \<open>getUserMedia\<close> (inside
  \<open>initializeAudio\<close>) and on \<open>channel.track\<close>; \<open>await channel.subscribe()\<close> awaits
  a value that is not a promise and resumes before any other event is handled, so it is
  not a suspension point of the model.  Other events may be handled while it is suspended.
\<close>

datatype async_result = Returned hook | Suspended await_point hook

text \<open>The state in which a call or a resumption hands control back: a call that has
  reached an \<open>await\<close> is entered in \<open>suspended\<close>.\<close>

fun scheduled :: "async_result \<Rightarrow> hook" where
  "scheduled (Returned s) = s"
| "scheduled (Suspended p s) = s\<lparr> suspended := suspended s @ [p] \<rparr>"

definition microphone_denied :: string where
  "microphone_denied = ''Microphone access denied. Please allow microphone access and try again.''"

definition connect_failed :: string where
  "connect_failed = ''Failed to connect to voice chat. Please check your microphone permissions.''"

definition connectToVoice :: "hook \<Rightarrow> async_result" where
  "connectToVoice s =
    (if \<not> isEnabled s \<or> isConnected s then Returned s
     else Suspended AwaitUserMedia
            (s\<lparr> connectionError := None, getUserMediaCalls := getUserMediaCalls s + 1 \<rparr>))"

text \<open>
  Resuming after \<open>getUserMedia\<close> settled: either with the error it rejected with, or with
  the stream it returned and the bytes the analyser delivers to the first \<open>detectVoice\<close>.
  A failure is caught twice: by \<open>initializeAudio\<close>, which sets its message and rethrows,
  and by \<open>connectToVoice\<close>, which sets its own.
\<close>

definition resume_getUserMedia ::
    "js_error + media_stream \<times> 8 word list \<Rightarrow> hook \<Rightarrow> async_result" where
  "resume_getUserMedia r s =
    (case r of
       Inl e \<Rightarrow>
         Returned (s\<lparr> connectionError := Some microphone_denied \<rparr>
                    \<lparr> connectionError := Some connect_failed \<rparr>)
     | Inr (stream, dataArray) \<Rightarrow>
         let a = streamCount s;
             s1 = s\<lparr> streams := (streams s)(a := stream), streamCount := a + 1,
                     localStreamRef := Some a,
                     audioContextRef := Some CtxRunning,
                     analyserRef := Some \<lparr> fftSize = 256, smoothingTimeConstant = 8 / 10 \<rparr> \<rparr>
         in case startVoiceActivityDetection dataArray s1 of
              Inl e \<Rightarrow>
                Returned (s1\<lparr> connectionError := Some microphone_denied \<rparr>
                            \<lparr> connectionError := Some connect_failed \<rparr>)
            | Inr s2 \<Rightarrow>
                let c = channelCount s2;
                    s3 = s2\<lparr> channelCount := c + 1, channelRef := Some c \<rparr>;
                    s4 = s3\<lparr> subscribed := insert c (subscribed s3) \<rparr>;
                    s5 = s4\<lparr> tracked := insert c (tracked s4) \<rparr>
                in Suspended AwaitTrack s5)"

definition resume_track :: "js_error + unit \<Rightarrow> hook \<Rightarrow> async_result" where
  "resume_track r s =
    (case r of
       Inl e \<Rightarrow> Returned (s\<lparr> connectionError := Some connect_failed \<rparr>)
     | Inr _ \<Rightarrow> Returned (s\<lparr> isConnected := True \<rparr>))"

section \<open>Relay handlers registered by \<open>connectToVoice\<close>\<close>

text \<open>
  The presence-sync handler reads \<open>channelRef.current.presenceState()\<close>; \<open>keys\<close> is
  \<open>Object.keys\<close> of that state.  Reading it through an empty \<open>channelRef\<close> throws.
\<close>

definition on_presence_sync :: "string list \<Rightarrow> hook \<Rightarrow> js_error + hook" where
  "on_presence_sync keys s =
    (case channelRef s of
       None \<Rightarrow> Inl TypeError
     | Some c \<Rightarrow>
         let users = map (\<lambda>key. \<lparr> user_id = key, user_nickname = key, user_isMuted = False,
                                   user_isSpeaking = False, user_audioLevel = 0 \<rparr>) keys;
             s1 = s\<lparr> voiceUsers := users \<rparr>
         in Inr (fold (\<lambda>user t.
                    if user_nickname user \<noteq> nickname t
                       \<and> map_of (peersRef t) (user_nickname user) = None
                    then (if nickname t < user_nickname user
                          then snd (createPeer (user_nickname user) True t) else t)
                    else t) users s1))"

definition on_presence_join :: "string \<Rightarrow> hook \<Rightarrow> hook" where
  "on_presence_join key s =
    (if key \<noteq> nickname s \<and> map_of (peersRef s) key = None
     then (if nickname s < key then snd (createPeer key True s) else s)
     else s)"

definition on_presence_leave :: "string \<Rightarrow> hook \<Rightarrow> hook" where
  "on_presence_leave key s =
    (let s1 = (case map_of (peersRef s) key of
                 None \<Rightarrow> s
               | Some peer \<Rightarrow>
                   (destroy peer s)\<lparr> peersRef := AList.delete key (peersRef s) \<rparr>);
         s2 = removeRemoteAudio key s1
     in s2\<lparr> voiceUsers := filter (\<lambda>user. user_nickname user \<noteq> key) (voiceUsers s2) \<rparr>)"

definition on_voice_activity :: "activity_payload \<Rightarrow> hook \<Rightarrow> hook" where
  "on_voice_activity payload s =
    (if payload_userId payload \<noteq> nickname s
     then s\<lparr> voiceUsers :=
               map (\<lambda>user. if user_nickname user = payload_userId payload
                            then user\<lparr> user_isSpeaking := payload_isSpeaking payload,
                                       user_audioLevel := payload_audioLevel payload,
                                       user_isMuted := payload_isMuted payload \<rparr>
                            else user) (voiceUsers s) \<rparr>
     else s)"

text \<open>\<open>peer.signal(signal)\<close> runs inside \<open>try\<close>/\<open>catch\<close>; the call is logged.\<close>

definition handleWebRTCSignal :: "signal_payload \<Rightarrow> hook \<Rightarrow> hook" where
  "handleWebRTCSignal payload s =
    (let (peer, s1) = (case map_of (peersRef s) (payload_from payload) of
                         None \<Rightarrow> createPeer (payload_from payload) False s
                       | Some p \<Rightarrow> (p, s))
     in s1\<lparr> signalled := signalled s1 @ [(peer_id peer, payload_signal payload)] \<rparr>)"

definition on_webrtc_signal :: "signal_payload \<Rightarrow> hook \<Rightarrow> hook" where
  "on_webrtc_signal payload s =
    (if payload_target payload = nickname s then handleWebRTCSignal payload s else s)"

section \<open>Disconnecting, mute and deafen\<close>

definition stopTracks :: "media_stream \<Rightarrow> media_stream" where
  "stopTracks st =
    st\<lparr> audioTracks := map (\<lambda>track. track\<lparr> track_ended := True \<rparr>) (audioTracks st),
        videoTracks := map (\<lambda>track. track\<lparr> track_ended := True \<rparr>) (videoTracks st) \<rparr>"

definition disconnectFromVoice :: "hook \<Rightarrow> hook" where
  "disconnectFromVoice s =
    (let s1 = (case animationFrameRef s of
                 None \<Rightarrow> s
               | Some i \<Rightarrow> if i \<noteq> 0 then cancelAnimationFrame i s else s);
         s2 = (case localStreamRef s1 of
                 None \<Rightarrow> s1
               | Some a \<Rightarrow> s1\<lparr> streams := (streams s1)(a := stopTracks (streams s1 a)),
                               localStreamRef := None \<rparr>);
         s3 = (case audioContextRef s2 of
                 None \<Rightarrow> s2
               | Some st \<Rightarrow> if st \<noteq> CtxClosed then s2\<lparr> audioContextRef := None \<rparr> else s2);
         s4 = fold (\<lambda>(userId, peer) t. removeRemoteAudio userId (destroy peer t))
                (peersRef s3) s3;
         s5 = s4\<lparr> peersRef := [] \<rparr>;
         s6 = (case channelRef s5 of
                 None \<Rightarrow> s5
               | Some c \<Rightarrow> s5\<lparr> subscribed := subscribed s5 - {c}, channelRef := None \<rparr>)
     in s6\<lparr> isConnected := False, voiceUsers := [], audioLevel := 0,
             connectionError := None \<rparr>)"

text \<open>
  \<open>toggleMute\<close> is created anew by every render in which \<open>isMuted\<close> has changed, and
  reads \<open>isMuted\<close> from that render, not from the current state: \<open>muted\<close> is the value
  the callback that is being called has closed over.  \<open>setIsMuted(!isMuted)\<close> takes
  effect with the next render.  The mute button always calls the callback of the latest
  render, which is \<open>toggleMute (isMuted s)\<close>.
\<close>

definition toggleMute :: "bool \<Rightarrow> hook \<Rightarrow> hook" where
  "toggleMute muted s =
    (case localStreamRef s of
       None \<Rightarrow> s
     | Some a \<Rightarrow>
         (case audioTracks (streams s a) of
            [] \<Rightarrow> s
          | audioTrack # rest \<Rightarrow>
              let s1 = s\<lparr> streams := (streams s)(a := (streams s a)
                            \<lparr> audioTracks := audioTrack\<lparr> track_enabled := muted \<rparr> # rest \<rparr>) \<rparr>;
                  s2 = s1\<lparr> isMuted := \<not> muted \<rparr>
              in (case channelRef s2 of
                    None \<Rightarrow> s2
                  | Some c \<Rightarrow>
                      s2\<lparr> sent := sent s2 @
                            [(c, VoiceActivity \<lparr> payload_userId = nickname s,
                                   payload_isSpeaking = False, payload_audioLevel = 0,
                                   payload_isMuted = (\<not> muted) \<rparr>)] \<rparr>)))"

definition toggleDeafen :: "hook \<Rightarrow> hook" where
  "toggleDeafen s =
    (let newDeafenState = \<not> isDeafened s
     in s\<lparr> isDeafened := newDeafenState,
            audios := fold (\<lambda>(userId, a) h.
                              h(a := (h a)\<lparr> audio_volume := (if newDeafenState then 0 else 1) \<rparr>))
                        (remoteAudiosRef s) (audios s) \<rparr>)"

section \<open>The hook as an event-driven machine\<close>

text \<open>
  Everything that can happen to a mounted hook: a call of one of the functions it returns
  (through the callback of the latest render), a promise settling on which a call of
  \<open>connectToVoice\<close> waits, a presence event or a broadcast delivered by the relay, an
  event of a peer created earlier (\<open>PeerError\<close> is the library's \<open>destroy(err)\<close>), or an
  animation frame that is still pending.  An exception thrown by a handler leaves the
  state as it was when it was thrown.

  A call through the callback of the latest render finds in its closure the state
  variables as they are now, so \<open>connectToVoice\<close> and \<open>toggleDeafen\<close> read them from
  the state; \<open>toggleMute\<close>, which is also studied for two calls of one callback, gets
  the flag it closed over as a parameter.
\<close>

datatype event =
  Connect
  | UserMediaSettled "js_error + media_stream \<times> 8 word list"
  | TrackSettled "js_error + unit"
  | Disconnect
  | ToggleMute
  | ToggleDeafen
  | PresenceSync "string list"
  | PresenceJoin string
  | PresenceLeave string
  | Broadcast relay_message
  | PeerSignal peer_inst string
  | PeerStream peer_inst nat
  | PeerError peer_inst
  | PeerClose peer_inst
  | AnimationFrame nat "8 word list"

fun step :: "event \<Rightarrow> hook \<Rightarrow> hook" where
  "step Connect s = scheduled (connectToVoice s)"
| "step (UserMediaSettled r) s =
     (if AwaitUserMedia \<in> set (suspended s)
      then scheduled (resume_getUserMedia r
                        (s\<lparr> suspended := remove1 AwaitUserMedia (suspended s) \<rparr>))
      else s)"
| "step (TrackSettled r) s =
     (if AwaitTrack \<in> set (suspended s)
      then scheduled (resume_track r (s\<lparr> suspended := remove1 AwaitTrack (suspended s) \<rparr>))
      else s)"
| "step Disconnect s = disconnectFromVoice s"
| "step ToggleMute s = toggleMute (isMuted s) s"
| "step ToggleDeafen s = toggleDeafen s"
| "step (PresenceSync keys) s =
     (case on_presence_sync keys s of Inl e \<Rightarrow> s | Inr s' \<Rightarrow> s')"
| "step (PresenceJoin key) s = on_presence_join key s"
| "step (PresenceLeave key) s = on_presence_leave key s"
| "step (Broadcast (VoiceActivity payload)) s = on_voice_activity payload s"
| "step (Broadcast (WebRTCSignal payload)) s = on_webrtc_signal payload s"
| "step (PeerSignal p data) s = (if p \<in> set (createdPeers s) then on_peer_signal p data s else s)"
| "step (PeerStream p remoteStream) s =
     (if p \<in> set (createdPeers s) then on_peer_stream p remoteStream s else s)"
| "step (PeerError p) s = (if p \<in> set (createdPeers s) then destroy_with_error p s else s)"
| "step (PeerClose p) s = (if p \<in> set (createdPeers s) then on_peer_close p s else s)"
| "step (AnimationFrame i dataArray) s =
     (if i \<in> pendingFrames s
      then (case detectVoice dataArray (s\<lparr> pendingFrames := pendingFrames s - {i} \<rparr>) of
              Inl e \<Rightarrow> s\<lparr> pendingFrames := pendingFrames s - {i} \<rparr>
            | Inr s' \<Rightarrow> s')
      else s)"

definition run :: "event list \<Rightarrow> hook \<Rightarrow> hook" where
  "run es s = fold step es s"

section \<open>Auxiliary notions and sample sessions\<close>

text \<open>An audio element after \<open>removeRemoteAudio\<close>: paused, without source, out of the document.\<close>

definition silenced :: "audio_el \<Rightarrow> bool" where
  "silenced el \<longleftrightarrow> audio_paused el \<and> audio_srcObject el = None \<and> \<not> audio_inBody el"



text \<open>The two \<open>forEach\<close> loops, as they occur in \<open>disconnectFromVoice\<close> and in the
  presence-sync handler.\<close>

abbreviation closeAll :: "(string \<times> peer_inst) list \<Rightarrow> hook \<Rightarrow> hook" where
  "closeAll \<equiv> fold (\<lambda>(userId, peer) t. removeRemoteAudio userId (destroy peer t))"

abbreviation syncUsers :: "voice_user list \<Rightarrow> hook \<Rightarrow> hook" where
  "syncUsers \<equiv> fold (\<lambda>user t.
      if user_nickname user \<noteq> nickname t \<and> map_of (peersRef t) (user_nickname user) = None
      then (if nickname t < user_nickname user
            then snd (createPeer (user_nickname user) True t) else t)
      else t)"

text \<open>
  A session of \<open>alice\<close> on channel \<open>c1\<close>: a microphone stream with one live audio track,
  an analyser that reports silence in its 128 bins, and the states reached while and after
  connecting.
\<close>

definition microphone :: media_stream where
  "microphone = \<lparr> audioTracks = [\<lparr> track_enabled = True, track_ended = False \<rparr>],
                  videoTracks = [] \<rparr>"

definition silence :: "8 word list" where
  "silence = replicate 128 0"

definition alice_mounted :: hook where
  "alice_mounted = mount ''c1'' ''alice'' True"

definition alice_connecting :: hook where
  "alice_connecting = run [Connect] alice_mounted"

definition alice_subscribing :: hook where
  "alice_subscribing = run [UserMediaSettled (Inr (microphone, silence))] alice_connecting"

definition alice_connected :: hook where
  "alice_connected = run [TrackSettled (Inr ())] alice_subscribing"

definition bob_peer :: peer_inst where
  "bob_peer = \<lparr> peer_id = 0, peer_target = ''bob'', peer_initiator = True,
                peer_stream = Some 0 \<rparr>"

definition alice_with_bob :: hook where
  "alice_with_bob = run [PresenceJoin ''bob'', PeerStream bob_peer 7] alice_connected"

text \<open>Carol joins as well and her stream is attached.\<close>

definition carol_peer :: peer_inst where
  "carol_peer = \<lparr> peer_id = 1, peer_target = ''carol'', peer_initiator = True,
                  peer_stream = Some 0 \<rparr>"

definition alice_with_bob_and_carol :: hook where
  "alice_with_bob_and_carol =
     run [PresenceJoin ''carol'', PeerStream carol_peer 8] alice_with_bob"

definition bob_connected :: hook where
  "bob_connected =
     run [Connect, UserMediaSettled (Inr (microphone, silence)), TrackSettled (Inr ())]
       (mount ''c1'' ''bob'' True)"

definition alice_offer :: signal_payload where
  "alice_offer = \<lparr> payload_target = ''bob'', payload_from = ''alice'',
                   payload_signal = ''offer'' \<rparr>"

definition bob_answer :: signal_payload where
  "bob_answer = \<lparr> payload_target = ''alice'', payload_from = ''bob'',
                  payload_signal = ''answer'' \<rparr>"

text \<open>Analyser readings: every bin at 64 (level one half), every bin at 10 (level 5/64).\<close>

definition loud :: "8 word list" where
  "loud = replicate 128 64"

definition murmur :: "8 word list" where
  "murmur = replicate 128 10"

text \<open>Alice's roster after a sync and an activity sample from bob.\<close>

definition alice_talking_to_bob :: hook where
  "alice_talking_to_bob =
     run [PresenceSync [''alice'', ''bob''],
          Broadcast (VoiceActivity \<lparr> payload_userId = ''bob'', payload_isSpeaking = True,
                                     payload_audioLevel = 1 / 2, payload_isMuted = True \<rparr>)]
       alice_connected"

text \<open>Alice mutes, disconnects and connects again: the flag survives, the stream is new.\<close>

definition alice_reconnected :: hook where
  "alice_reconnected =
     run [ToggleMute, Disconnect, Connect, UserMediaSettled (Inr (microphone, silence)),
          TrackSettled (Inr ())] alice_connected"

text \<open>Alice deafens first; bob joins and his stream arrives afterwards.\<close>

definition alice_deafened_then_bob :: hook where
  "alice_deafened_then_bob =
     run [ToggleDeafen, PresenceJoin ''bob'', PeerStream bob_peer 7] alice_connected"

text \<open>Every peer this hook instance ever created as initiator targets a larger identity.\<close>

definition initiators_ordered :: "hook \<Rightarrow> bool" where
  "initiators_ordered s \<longleftrightarrow>
     (\<forall>p \<in> set (createdPeers s). peer_initiator p \<longrightarrow> nickname s < peer_target p)"

section \<open>Basic facts\<close>

lemmas model_defs = run_def mount_def connectToVoice_def resume_getUserMedia_def
  resume_track_def startVoiceActivityDetection_def detectVoice_def normalizedLevel_def
  average_def requestAnimationFrame_def cancelAnimationFrame_def Let_def sum_list_replicate
  on_presence_sync_def on_presence_join_def on_presence_leave_def on_voice_activity_def
  on_webrtc_signal_def handleWebRTCSignal_def createPeer_def destroy_def
  on_peer_signal_def on_peer_stream_def on_peer_error_def on_peer_close_def
  destroy_with_error_def
  playRemoteAudio_def removeRemoteAudio_def
  disconnectFromVoice_def stopTracks_def toggleMute_def toggleDeafen_def

lemmas sample_defs = microphone_def silence_def alice_mounted_def alice_connecting_def
  alice_subscribing_def alice_connected_def

lemma alice_connected_state:
  "isConnected alice_connected" "isEnabled alice_connected"
  "nickname alice_connected = ''alice''"
  "localStreamRef alice_connected = Some 0" "channelRef alice_connected = Some 0"
  "streams alice_connected 0 = microphone" "peersRef alice_connected = []"
  "subscribed alice_connected = {0}" "connectionError alice_connected = None"
  "isMuted alice_connected = False" "isDeafened alice_connected = False"
  "analyserRef alice_connected = Some \<lparr> fftSize = 256, smoothingTimeConstant = 8 / 10 \<rparr>"
  "createdPeers alice_connected = []" "sent alice_connected = []"
  by (simp_all add: sample_defs model_defs)

lemma bob_connected_state:
  "isConnected bob_connected" "nickname bob_connected = ''bob''"
  "localStreamRef bob_connected = Some 0" "channelRef bob_connected = Some 0"
  "peersRef bob_connected = []" "createdPeers bob_connected = []"
  by (simp_all add: bob_connected_def microphone_def silence_def model_defs)

lemma alice_with_bob_state:
  "isConnected alice_with_bob"
  "peersRef alice_with_bob = [(''bob'', bob_peer)]"
  "remoteAudiosRef alice_with_bob = [(''bob'', 0)]"
  "localStreamRef alice_with_bob = Some 0" "channelRef alice_with_bob = Some 0"
  "audio_volume (audios alice_with_bob 0) = 1" "\<not> audio_paused (audios alice_with_bob 0)"
  "0 \<in> subscribed alice_with_bob" "destroyedPeers alice_with_bob = {}"
  by (simp_all add: sample_defs bob_peer_def alice_with_bob_def model_defs)

section \<open>Disconnecting\<close>

lemma removeRemoteAudio_shape:
  "\<exists>h r. removeRemoteAudio u s = s\<lparr> audios := h, remoteAudiosRef := r \<rparr>"
proof (cases "map_of (remoteAudiosRef s) u")
  case None
  then have "removeRemoteAudio u s = s\<lparr> audios := audios s, remoteAudiosRef := remoteAudiosRef s \<rparr>"
    by (simp add: removeRemoteAudio_def)
  then show ?thesis by blast
next
  case (Some a)
  then show ?thesis by (simp add: removeRemoteAudio_def) blast
qed

lemma closeAll_shape:
  "\<exists>h r d. closeAll xs t = t\<lparr> audios := h, remoteAudiosRef := r, destroyedPeers := d \<rparr>"
proof (induction xs arbitrary: t)
  case Nil
  have "t = t\<lparr> audios := audios t, remoteAudiosRef := remoteAudiosRef t, destroyedPeers := destroyedPeers t \<rparr>"
    by simp
  then show ?case by (metis fold_simps(1))
next
  case (Cons x xs)
  obtain u p where x: "x = (u, p)" by (cases x)
  obtain h r where 1: "removeRemoteAudio u (destroy p t) = (destroy p t)\<lparr> audios := h, remoteAudiosRef := r \<rparr>"
    using removeRemoteAudio_shape by blast
  obtain h' r' d' where 2: "closeAll xs (removeRemoteAudio u (destroy p t)) =
      (removeRemoteAudio u (destroy p t))\<lparr> audios := h', remoteAudiosRef := r', destroyedPeers := d' \<rparr>"
    using Cons.IH by blast
  have "closeAll (x # xs) t = closeAll xs (removeRemoteAudio u (destroy p t))"
    by (simp add: x)
  also note 2
  also have "(removeRemoteAudio u (destroy p t))\<lparr> audios := h', remoteAudiosRef := r', destroyedPeers := d' \<rparr>
      = t\<lparr> audios := h', remoteAudiosRef := r', destroyedPeers := d' \<rparr>"
    by (simp only: 1) (simp add: destroy_def)
  finally show ?case by blast
qed




lemma destroy_fields [simp]:
  "audios (destroy p t) = audios t" "remoteAudiosRef (destroy p t) = remoteAudiosRef t"
  "destroyedPeers (destroy p t) = insert (peer_id p) (destroyedPeers t)"
  by (simp_all add: destroy_def)

lemma removeRemoteAudio_destroyedPeers [simp]:
  "destroyedPeers (removeRemoteAudio u t) = destroyedPeers t"
  by (simp add: removeRemoteAudio_def split: option.splits)








lemma closeAll_fields:
  shows "peersRef (closeAll xs t) = peersRef t"
    and "channelRef (closeAll xs t) = channelRef t"
    and "subscribed (closeAll xs t) = subscribed t"
    and "localStreamRef (closeAll xs t) = localStreamRef t"
    and "streams (closeAll xs t) = streams t"
    and "audioContextRef (closeAll xs t) = audioContextRef t"
    and "animationFrameRef (closeAll xs t) = animationFrameRef t"
    and "pendingFrames (closeAll xs t) = pendingFrames t"
    and "nickname (closeAll xs t) = nickname t"
    and "createdPeers (closeAll xs t) = createdPeers t"
    and "suspended (closeAll xs t) = suspended t"
proof -
  obtain h r d where e: "closeAll xs t = t\<lparr> audios := h, remoteAudiosRef := r, destroyedPeers := d \<rparr>"
    using closeAll_shape by blast
  show "peersRef (closeAll xs t) = peersRef t"
    and "channelRef (closeAll xs t) = channelRef t"
    and "subscribed (closeAll xs t) = subscribed t"
    and "localStreamRef (closeAll xs t) = localStreamRef t"
    and "streams (closeAll xs t) = streams t"
    and "audioContextRef (closeAll xs t) = audioContextRef t"
    and "animationFrameRef (closeAll xs t) = animationFrameRef t"
    and "pendingFrames (closeAll xs t) = pendingFrames t"
    and "nickname (closeAll xs t) = nickname t"
    and "createdPeers (closeAll xs t) = createdPeers t"
    and "suspended (closeAll xs t) = suspended t"
    by (simp_all add: e)
qed











subsection \<open>Events that leave the session as it is\<close>












section \<open>Connecting: the guard and the failure of audio capture\<close>

text \<open>
  Claim C8, as amended.  The guard of \<open>connectToVoice\<close> tests \<open>isEnabled\<close> and
  \<open>isConnected\<close> only.  When the session is connected the call returns at once: nothing
  is acquired, nothing is subscribed, the state is the same.  The hook keeps no record of
  an attempt in progress, so the guard cannot and does not cover one.
\<close>

theorem connectToVoice_connected_noop:
  "isConnected s \<Longrightarrow> connectToVoice s = Returned s"
  by (simp add: connectToVoice_def)

theorem connectToVoice_connected_noop_witness:
  "isConnected alice_connected \<and> connectToVoice alice_connected = Returned alice_connected"
  using connectToVoice_connected_noop [of alice_connected]
  by (simp add: alice_connected_state)

text \<open>
  Claim C8 as stated fails while connecting.  \<open>alice_connecting\<close> waits for
  \<open>getUserMedia\<close>: a second call requests the microphone a second time.
  \<open>alice_subscribing\<close> has subscribed and waits for \<open>track\<close>: a second call that runs
  on creates and subscribes a second channel.
\<close>

theorem connectToVoice_connecting_counterexample:
  "\<not> isConnected alice_connecting
   \<and> getUserMediaCalls alice_connecting = 1
   \<and> connectToVoice alice_connecting \<noteq> Returned alice_connecting
   \<and> getUserMediaCalls (run [Connect] alice_connecting) = 2
   \<and> \<not> isConnected alice_subscribing
   \<and> subscribed alice_subscribing = {0}
   \<and> subscribed (run [Connect, UserMediaSettled (Inr (microphone, silence))] alice_subscribing)
       = {0, 1}"
  by (simp add: sample_defs model_defs insert_commute)

text \<open>
  Claim C5.  \<open>connectToVoice\<close> is called on an enabled, unconnected session without
  channel and peers, and \<open>getUserMedia\<close> rejects.  Then the call ends with the cause
  string of \<open>connectToVoice\<close> in \<open>connectionError\<close>; \<open>isConnected\<close> is still false;
  no channel was created, subscribed or tracked, \<open>channelRef\<close> is still empty; no peer
  was created; no stream is held.
\<close>

theorem capture_failure:
  assumes "isEnabled s" and "\<not> isConnected s" and "channelRef s = None" and "peersRef s = []"
  shows "\<exists>s1 s2. connectToVoice s = Suspended AwaitUserMedia s1
           \<and> resume_getUserMedia (Inl e) s1 = Returned s2
           \<and> connectionError s2 = Some connect_failed
           \<and> \<not> isConnected s2
           \<and> channelRef s2 = None \<and> channelCount s2 = channelCount s
           \<and> subscribed s2 = subscribed s \<and> tracked s2 = tracked s
           \<and> peersRef s2 = [] \<and> createdPeers s2 = createdPeers s
           \<and> localStreamRef s2 = localStreamRef s"
  using assms by (simp add: connectToVoice_def resume_getUserMedia_def)

theorem capture_failure_witness:
  "isEnabled alice_mounted \<and> \<not> isConnected alice_mounted
   \<and> channelRef alice_mounted = None \<and> peersRef alice_mounted = []
   \<and> (\<exists>s1 s2. connectToVoice alice_mounted = Suspended AwaitUserMedia s1
           \<and> resume_getUserMedia (Inl NotAllowedError) s1 = Returned s2
           \<and> connectionError s2 = Some connect_failed
           \<and> \<not> isConnected s2
           \<and> channelRef s2 = None \<and> channelCount s2 = 0
           \<and> subscribed s2 = {} \<and> tracked s2 = {}
           \<and> peersRef s2 = [] \<and> createdPeers s2 = []
           \<and> localStreamRef s2 = None)"
proof -
  have h: "isEnabled alice_mounted" "\<not> isConnected alice_mounted"
    "channelRef alice_mounted = None" "peersRef alice_mounted = []"
    by (simp_all add: alice_mounted_def mount_def)
  have v: "channelCount alice_mounted = 0" "subscribed alice_mounted = {}"
    "tracked alice_mounted = {}" "createdPeers alice_mounted = []"
    "localStreamRef alice_mounted = None"
    by (simp_all add: alice_mounted_def mount_def)
  show ?thesis
    using capture_failure [OF h, of NotAllowedError] h by (simp add: v)
qed

section \<open>Mute\<close>

text \<open>
  Claim C3, as amended.  \<open>toggleMute\<close> does all its work under the guard
  \<open>if (localStreamRef.current)\<close>: without a local stream it does not throw and changes
  nothing, the muted flag included, whichever render the callback comes from.
\<close>

theorem toggleMute_without_stream:
  "localStreamRef s = None \<Longrightarrow> toggleMute muted s = s"
  by (simp add: toggleMute_def)

theorem toggleMute_without_stream_witness:
  "localStreamRef alice_mounted = None
   \<and> toggleMute (isMuted alice_mounted) alice_mounted = alice_mounted"
proof -
  have h: "localStreamRef alice_mounted = None"
    by (simp add: alice_mounted_def mount_def)
  show ?thesis
    using toggleMute_without_stream [OF h, of "isMuted alice_mounted"] h by simp
qed

text \<open>
  Claim C3 as stated fails: on the freshly mounted hook the muted flag is not flipped by
  \<open>toggleMute\<close>, and it is still false after connecting later.
\<close>

theorem toggleMute_without_stream_counterexample:
  "localStreamRef alice_mounted = None
   \<and> isMuted (toggleMute (isMuted alice_mounted) alice_mounted) \<noteq> (\<not> isMuted alice_mounted)
   \<and> \<not> isMuted (run [ToggleMute, Connect, UserMediaSettled (Inr (microphone, silence)),
                       TrackSettled (Inr ())] alice_mounted)"
  by (simp add: sample_defs model_defs)

section \<open>Initiator election\<close>

lemma ordered_cong:
  "nickname t = nickname s \<Longrightarrow> createdPeers t = createdPeers s \<Longrightarrow>
     initiators_ordered s \<Longrightarrow> initiators_ordered t"
  by (simp add: initiators_ordered_def)

lemma removeRemoteAudio_keeps:
  "nickname (removeRemoteAudio u s) = nickname s"
  "createdPeers (removeRemoteAudio u s) = createdPeers s"
  "peersRef (removeRemoteAudio u s) = peersRef s"
  by (simp_all add: removeRemoteAudio_def split: option.splits)

lemma detectVoice_keeps:
  "detectVoice d s = Inr s' \<Longrightarrow> nickname s' = nickname s \<and> createdPeers s' = createdPeers s"
  by (auto simp add: detectVoice_def requestAnimationFrame_def Let_def
      split: option.splits if_splits)

lemma connect_keeps:
  "nickname (scheduled (connectToVoice s)) = nickname s"
  "createdPeers (scheduled (connectToVoice s)) = createdPeers s"
  by (simp_all add: connectToVoice_def)

lemma resume_getUserMedia_keeps:
  "nickname (scheduled (resume_getUserMedia r s)) = nickname s
   \<and> createdPeers (scheduled (resume_getUserMedia r s)) = createdPeers s"
  by (auto simp add: resume_getUserMedia_def startVoiceActivityDetection_def Let_def
      split: sum.splits prod.splits dest!: detectVoice_keeps)

lemma resume_track_keeps:
  "nickname (scheduled (resume_track r s)) = nickname s"
  "createdPeers (scheduled (resume_track r s)) = createdPeers s"
  by (simp_all add: resume_track_def split: sum.splits)

lemma disconnect_keeps:
  "nickname (disconnectFromVoice s) = nickname s"
  "createdPeers (disconnectFromVoice s) = createdPeers s"
  by (simp_all add: disconnectFromVoice_def Let_def cancelAnimationFrame_def closeAll_fields
      split: option.splits)

lemma toggle_keeps:
  "nickname (toggleMute muted s) = nickname s"
  "createdPeers (toggleMute muted s) = createdPeers s"
  "nickname (toggleDeafen s) = nickname s" "createdPeers (toggleDeafen s) = createdPeers s"
  by (simp_all add: toggleMute_def toggleDeafen_def Let_def split: option.splits list.splits)

lemma handlers_keep:
  "nickname (on_presence_leave key s) = nickname s"
  "createdPeers (on_presence_leave key s) = createdPeers s"
  "nickname (on_voice_activity payload s) = nickname s"
  "createdPeers (on_voice_activity payload s) = createdPeers s"
  "nickname (on_peer_signal p d s) = nickname s"
  "createdPeers (on_peer_signal p d s) = createdPeers s"
  "nickname (on_peer_stream p r s) = nickname s"
  "createdPeers (on_peer_stream p r s) = createdPeers s"
  "nickname (on_peer_error p s) = nickname s"
  "createdPeers (on_peer_error p s) = createdPeers s"
  "nickname (on_peer_close p s) = nickname s"
  "createdPeers (on_peer_close p s) = createdPeers s"
  "nickname (destroy_with_error p s) = nickname s"
  "createdPeers (destroy_with_error p s) = createdPeers s"
  by (simp_all add: on_presence_leave_def on_voice_activity_def on_peer_signal_def
      on_peer_stream_def on_peer_error_def on_peer_close_def playRemoteAudio_def
      destroy_with_error_def
      removeRemoteAudio_keeps destroy_def Let_def split: option.splits)

lemma syncUsers_keeps_nickname: "nickname (syncUsers users t) = nickname t"
  by (induction users arbitrary: t) (simp_all add: createPeer_def Let_def)

lemma join_ordered:
  "initiators_ordered s \<Longrightarrow> initiators_ordered (on_presence_join key s)"
  by (simp add: initiators_ordered_def on_presence_join_def createPeer_def Let_def)

lemma syncUsers_ordered:
  "initiators_ordered t \<Longrightarrow> initiators_ordered (syncUsers users t)"
  by (induction users arbitrary: t)
     (simp_all add: initiators_ordered_def createPeer_def Let_def)

lemma sync_ordered:
  "initiators_ordered s \<Longrightarrow> on_presence_sync keys s = Inr s' \<Longrightarrow> initiators_ordered s'"
proof -
  assume o: "initiators_ordered s" and r: "on_presence_sync keys s = Inr s'"
  let ?users = "map (\<lambda>key. \<lparr> user_id = key, user_nickname = key, user_isMuted = False,
                                   user_isSpeaking = False, user_audioLevel = 0 \<rparr>) keys"
  from r have "s' = syncUsers ?users (s\<lparr> voiceUsers := ?users \<rparr>)"
    by (simp add: on_presence_sync_def Let_def split: option.splits)
  moreover have "initiators_ordered (s\<lparr> voiceUsers := ?users \<rparr>)"
    using o by (simp add: initiators_ordered_def)
  ultimately show ?thesis by (simp only: syncUsers_ordered)
qed

lemma signal_ordered:
  "initiators_ordered s \<Longrightarrow> initiators_ordered (on_webrtc_signal payload s)"
  by (simp add: initiators_ordered_def on_webrtc_signal_def handleWebRTCSignal_def
      createPeer_def Let_def split: option.splits)

lemma step_ordered:
  "initiators_ordered s \<Longrightarrow> initiators_ordered (step e s)"
proof (cases e)
  case (UserMediaSettled r)
  then show "initiators_ordered s \<Longrightarrow> ?thesis"
    using resume_getUserMedia_keeps [of r "s\<lparr> suspended := remove1 AwaitUserMedia (suspended s) \<rparr>"]
    by (auto simp add: initiators_ordered_def)
next
  case (PresenceSync keys)
  then show "initiators_ordered s \<Longrightarrow> ?thesis"
    by (auto split: sum.splits intro: sync_ordered)
next
  case (Broadcast m)
  then show "initiators_ordered s \<Longrightarrow> ?thesis"
    by (cases m) (auto intro: signal_ordered ordered_cong simp add: handlers_keep)
next
  case (AnimationFrame i d)
  then show "initiators_ordered s \<Longrightarrow> ?thesis"
    by (auto split: sum.splits dest!: detectVoice_keeps simp add: initiators_ordered_def)
qed (auto intro: join_ordered ordered_cong
      simp add: connect_keeps resume_track_keeps disconnect_keeps toggle_keeps handlers_keep)

lemma step_nickname: "nickname (step e s) = nickname s"
proof (cases e)
  case (UserMediaSettled r)
  then show ?thesis
    using resume_getUserMedia_keeps [of r "s\<lparr> suspended := remove1 AwaitUserMedia (suspended s) \<rparr>"]
    by simp
next
  case (PresenceSync keys)
  then show ?thesis
    by (auto simp add: on_presence_sync_def Let_def syncUsers_keeps_nickname split: option.splits)
next
  case (Broadcast m)
  then show ?thesis
    by (cases m) (simp_all add: handlers_keep on_webrtc_signal_def handleWebRTCSignal_def
        createPeer_def Let_def split: option.splits)
next
  case (AnimationFrame i d)
  then show ?thesis by (auto split: sum.splits dest!: detectVoice_keeps)
qed (simp_all add: connect_keeps resume_track_keeps disconnect_keeps toggle_keeps handlers_keep
      on_presence_join_def createPeer_def Let_def)

lemma run_nickname: "nickname (run es s) = nickname s"
  unfolding run_def by (induction es arbitrary: s) (simp_all add: step_nickname)

lemma run_ordered:
  "initiators_ordered s \<Longrightarrow> initiators_ordered (run es s)"
  unfolding run_def by (induction es arbitrary: s) (simp_all add: step_ordered)


lemma syncUsers_stable:
  "map_of (peersRef t) B = Some p \<Longrightarrow> map_of (peersRef (syncUsers users t)) B = Some p"
proof (induction users arbitrary: t)
  case Nil
  then show ?case by simp
next
  case (Cons u us)
  let ?t = "if user_nickname u \<noteq> nickname t \<and> map_of (peersRef t) (user_nickname u) = None
            then (if nickname t < user_nickname u
                  then snd (createPeer (user_nickname u) True t) else t)
            else t"
  have "map_of (peersRef ?t) B = Some p"
    using Cons.prems by (auto simp add: createPeer_def Let_def update_conv')
  then have "map_of (peersRef (syncUsers us ?t)) B = Some p"
    by (rule Cons.IH)
  then show ?case by simp
qed

lemma syncUsers_initiates:
  assumes "nickname t < B" and "B \<in> user_nickname ` set users"
    and "map_of (peersRef t) B = None"
  shows "\<exists>p. map_of (peersRef (syncUsers users t)) B = Some p
           \<and> peer_initiator p \<and> peer_target p = B"
  using assms
proof (induction users arbitrary: t)
  case Nil
  then show ?case by simp
next
  case (Cons u us)
  show ?case
  proof (cases "user_nickname u = B")
    case True
    let ?p = "\<lparr> peer_id = length (createdPeers t), peer_target = B,
                peer_initiator = True, peer_stream = localStreamRef t \<rparr>"
    let ?t = "snd (createPeer B True t)"
    have "map_of (peersRef ?t) B = Some ?p"
      by (simp add: createPeer_def Let_def update_conv')
    then have "map_of (peersRef (syncUsers us ?t)) B = Some ?p"
      by (rule syncUsers_stable)
    moreover have "syncUsers (u # us) t = syncUsers us ?t"
      using True Cons.prems by auto
    ultimately show ?thesis by simp
  next
    case False
    let ?t = "if user_nickname u \<noteq> nickname t \<and> map_of (peersRef t) (user_nickname u) = None
              then (if nickname t < user_nickname u
                    then snd (createPeer (user_nickname u) True t) else t)
              else t"
    have 1: "nickname ?t < B" using Cons.prems(1) by (simp add: createPeer_def Let_def)
    have 2: "B \<in> user_nickname ` set us" using Cons.prems(2) False by auto
    have 3: "map_of (peersRef ?t) B = None"
      using Cons.prems(3) False by (simp add: createPeer_def Let_def update_conv')
    have "syncUsers (u # us) t = syncUsers us ?t" by simp
    then show ?thesis using Cons.IH [OF 1 2 3] by simp
  qed
qed

text \<open>
  Claim C1.  Let \<open>A < B\<close> in the lexicographic order of identities.
  A hook mounted for \<open>B\<close> never creates an initiator peer toward \<open>A\<close>, whatever
  sequence of events it handles, and its presence-join handler ignores \<open>A\<close>.
  The hook of \<open>A\<close> creates the initiator peer toward \<open>B\<close> when \<open>B\<close> joins, or is listed
  in a presence sync, and no peer for \<open>B\<close> exists yet.  Whoever receives a signal that is
  addressed to it from a sender it has no peer for creates that peer as non-initiator;
  the order of the two identities plays no part in that.
\<close>

theorem initiator_election:
  assumes "A < B"
  shows "(\<forall>es ch en. \<forall>p \<in> set (createdPeers (run es (mount ch B en))).
            peer_initiator p \<longrightarrow> peer_target p \<noteq> A)
       \<and> (\<forall>s. nickname s = B \<longrightarrow> on_presence_join A s = s)
       \<and> (\<forall>s. nickname s = A \<and> map_of (peersRef s) B = None \<longrightarrow>
            map_of (peersRef (on_presence_join B s)) B
              = Some \<lparr> peer_id = length (createdPeers s), peer_target = B,
                       peer_initiator = True, peer_stream = localStreamRef s \<rparr>)
       \<and> (\<forall>s c keys. nickname s = A \<and> channelRef s = Some c \<and> B \<in> set keys
                      \<and> map_of (peersRef s) B = None \<longrightarrow>
            (\<exists>s' p. on_presence_sync keys s = Inr s' \<and> map_of (peersRef s') B = Some p
                     \<and> peer_initiator p \<and> peer_target p = B))
       \<and> (\<forall>s payload. payload_target payload = nickname s
                      \<and> map_of (peersRef s) (payload_from payload) = None \<longrightarrow>
            map_of (peersRef (on_webrtc_signal payload s)) (payload_from payload)
              = Some \<lparr> peer_id = length (createdPeers s), peer_target = payload_from payload,
                       peer_initiator = False, peer_stream = localStreamRef s \<rparr>)"
proof -
  have never: "\<forall>es ch en. \<forall>p \<in> set (createdPeers (run es (mount ch B en))).
            peer_initiator p \<longrightarrow> peer_target p \<noteq> A"
  proof (intro allI ballI impI)
    fix es ch en p
    assume p: "p \<in> set (createdPeers (run es (mount ch B en)))" and i: "peer_initiator p"
    have "initiators_ordered (mount ch B en)"
      by (simp add: initiators_ordered_def mount_def)
    then have "initiators_ordered (run es (mount ch B en))"
      by (rule run_ordered)
    then have "nickname (run es (mount ch B en)) < peer_target p"
      using p i by (simp add: initiators_ordered_def)
    moreover have "nickname (run es (mount ch B en)) = B"
      by (simp add: run_nickname mount_def)
    ultimately show "peer_target p \<noteq> A" using assms by auto
  qed
  have idle: "\<forall>s. nickname s = B \<longrightarrow> on_presence_join A s = s"
    using assms by (auto simp add: on_presence_join_def)
  have join: "\<forall>s. nickname s = A \<and> map_of (peersRef s) B = None \<longrightarrow>
            map_of (peersRef (on_presence_join B s)) B
              = Some \<lparr> peer_id = length (createdPeers s), peer_target = B,
                       peer_initiator = True, peer_stream = localStreamRef s \<rparr>"
    using assms by (auto simp add: on_presence_join_def createPeer_def Let_def update_conv')
  have sync: "\<forall>s c keys. nickname s = A \<and> channelRef s = Some c \<and> B \<in> set keys
                      \<and> map_of (peersRef s) B = None \<longrightarrow>
            (\<exists>s' p. on_presence_sync keys s = Inr s' \<and> map_of (peersRef s') B = Some p
                     \<and> peer_initiator p \<and> peer_target p = B)"
  proof (intro allI impI)
    fix s :: hook and c keys
    assume h: "nickname s = A \<and> channelRef s = Some c \<and> B \<in> set keys
                      \<and> map_of (peersRef s) B = None"
    let ?users = "map (\<lambda>key. \<lparr> user_id = key, user_nickname = key, user_isMuted = False,
                                   user_isSpeaking = False, user_audioLevel = 0 \<rparr>) keys"
    let ?s1 = "s\<lparr> voiceUsers := ?users \<rparr>"
    have "B \<in> user_nickname ` set ?users" using h by force
    then have "\<exists>p. map_of (peersRef (syncUsers ?users ?s1)) B = Some p
           \<and> peer_initiator p \<and> peer_target p = B"
      using h assms by (intro syncUsers_initiates) simp_all
    moreover have "on_presence_sync keys s = Inr (syncUsers ?users ?s1)"
      using h by (simp add: on_presence_sync_def Let_def)
    ultimately show "\<exists>s' p. on_presence_sync keys s = Inr s' \<and> map_of (peersRef s') B = Some p
                     \<and> peer_initiator p \<and> peer_target p = B"
      by blast
  qed
  have signal: "\<forall>s payload. payload_target payload = nickname s
                      \<and> map_of (peersRef s) (payload_from payload) = None \<longrightarrow>
            map_of (peersRef (on_webrtc_signal payload s)) (payload_from payload)
              = Some \<lparr> peer_id = length (createdPeers s), peer_target = payload_from payload,
                       peer_initiator = False, peer_stream = localStreamRef s \<rparr>"
    by (simp add: on_webrtc_signal_def handleWebRTCSignal_def createPeer_def Let_def update_conv')
  show ?thesis using never idle join sync signal by blast
qed

theorem initiator_election_witness:
  "''alice'' < ''bob''
   \<and> createdPeers (run [PresenceSync [''alice'', ''bob''], PresenceJoin ''alice'',
                           Broadcast (WebRTCSignal alice_offer)] bob_connected)
       = [\<lparr> peer_id = 0, peer_target = ''alice'', peer_initiator = False,
             peer_stream = Some 0 \<rparr>]
   \<and> on_presence_join ''alice'' bob_connected = bob_connected
   \<and> map_of (peersRef (on_presence_join ''bob'' alice_connected)) ''bob'' = Some bob_peer
   \<and> (\<exists>s' p. on_presence_sync [''alice'', ''bob''] alice_connected = Inr s'
         \<and> map_of (peersRef s') ''bob'' = Some p \<and> peer_initiator p \<and> peer_target p = ''bob'')
   \<and> map_of (peersRef (on_webrtc_signal alice_offer bob_connected)) ''alice''
       = Some \<lparr> peer_id = 0, peer_target = ''alice'', peer_initiator = False,
                peer_stream = Some 0 \<rparr>
   \<and> map_of (peersRef (on_webrtc_signal bob_answer alice_connected)) ''bob''
       = Some \<lparr> peer_id = 0, peer_target = ''bob'', peer_initiator = False,
                peer_stream = Some 0 \<rparr>"
proof -
  have h: "''alice'' < ''bob''" by simp
  note t = initiator_election [OF h]
  have 1: "createdPeers (run [PresenceSync [''alice'', ''bob''], PresenceJoin ''alice'',
                           Broadcast (WebRTCSignal alice_offer)] bob_connected)
       = [\<lparr> peer_id = 0, peer_target = ''alice'', peer_initiator = False,
             peer_stream = Some 0 \<rparr>]"
    by (simp add: bob_connected_def alice_offer_def microphone_def silence_def model_defs)
  have 2: "on_presence_join ''alice'' bob_connected = bob_connected"
    using t by (simp add: bob_connected_state)
  have 3: "map_of (peersRef (on_presence_join ''bob'' alice_connected)) ''bob'' = Some bob_peer"
    using t by (simp add: alice_connected_state bob_peer_def)
  have 4: "\<exists>s' p. on_presence_sync [''alice'', ''bob''] alice_connected = Inr s'
         \<and> map_of (peersRef s') ''bob'' = Some p \<and> peer_initiator p \<and> peer_target p = ''bob''"
    using t by (simp add: alice_connected_state)
  have signal: "map_of (peersRef (on_webrtc_signal payload s)) (payload_from payload)
              = Some \<lparr> peer_id = length (createdPeers s), peer_target = payload_from payload,
                       peer_initiator = False, peer_stream = localStreamRef s \<rparr>"
    if "payload_target payload = nickname s"
      and "map_of (peersRef s) (payload_from payload) = None" for s payload
    using t that by blast
  have 5: "map_of (peersRef (on_webrtc_signal alice_offer bob_connected)) ''alice''
       = Some \<lparr> peer_id = 0, peer_target = ''alice'', peer_initiator = False,
                peer_stream = Some 0 \<rparr>"
    using signal [of alice_offer bob_connected]
    by (simp add: bob_connected_state alice_offer_def)
  have 6: "map_of (peersRef (on_webrtc_signal bob_answer alice_connected)) ''bob''
       = Some \<lparr> peer_id = 0, peer_target = ''bob'', peer_initiator = False,
                peer_stream = Some 0 \<rparr>"
    using signal [of bob_answer alice_connected]
    by (simp add: alice_connected_state bob_answer_def)
  show ?thesis using h 1 2 3 4 5 6 by blast
qed

section \<open>Voice activity samples\<close>

text \<open>
  \<open>initializeAudio\<close> sets \<open>fftSize = 256\<close> before the sampling loop allocates its byte
  array, so the array has 128 entries and the level is a multiple of \<open>1 / 16384\<close>.
\<close>

lemma level_128:
  assumes "length dataArray = 128"
  shows "normalizedLevel dataArray = min (of_nat (sum_list (map unat dataArray)) / 16384) 1"
  using assms by (simp add: normalizedLevel_def average_def)

lemma level_off_boundary:
  assumes "length dataArray = 128"
  shows "normalizedLevel dataArray \<noteq> 15 / 100"
proof
  assume e: "normalizedLevel dataArray = 15 / 100"
  define S where "S = sum_list (map unat dataArray)"
  have "min (of_nat S / 16384) (1::rat) = 15 / 100"
    using e level_128 [OF assms] by (simp add: S_def)
  then have "(of_nat S :: rat) / 16384 = 15 / 100"
    by (simp add: min_def split: if_splits)
  then have "(of_nat S :: rat) * 100 = 245760"
    by (simp add: field_simps)
  then have "(of_nat (S * 100) :: rat) = of_nat 245760"
    by simp
  then have "S * 100 = 245760"
    by (simp only: of_nat_eq_iff)
  then show False by presburger
qed

text \<open>
  The literal \<open>0.15\<close> denotes the binary floating-point number \<open>5404319552844595 / 2^55\<close>,
  a little below \<open>15 / 100\<close>.  No level the analyser can produce lies between the two, so
  comparing with \<open>15 / 100\<close> is comparing with the literal.
\<close>

lemma literal_rounding_harmless:
  fixes S :: nat
  shows "(15 / 100 < (of_nat S :: rat) / 16384) = (5404319552844595 / 2 ^ 55 < (of_nat S :: rat) / 16384)"
proof -
  have a: "(15 / 100 < (of_nat S :: rat) / 16384) = (2457 < S)"
  proof -
    have "(15 / 100 < (of_nat S :: rat) / 16384) = ((of_nat 245760 :: rat) < of_nat (S * 100))"
      by (simp add: field_simps)
    also have "\<dots> = (245760 < S * 100)" by (simp only: of_nat_less_iff)
    also have "\<dots> = (2457 < S)" by presburger
    finally show ?thesis .
  qed
  have b: "(5404319552844595 / 2 ^ 55 < (of_nat S :: rat) / 16384) = (2457 < S)"
  proof -
    have "(5404319552844595 / 2 ^ 55 < (of_nat S :: rat) / 16384)
        = ((of_nat 5404319552844595 :: rat) < of_nat (S * 2199023255552))"
      by (simp add: field_simps)
    also have "\<dots> = (5404319552844595 < S * 2199023255552)" by (simp only: of_nat_less_iff)
    also have "\<dots> = (2457 < S)"
    proof (cases "2457 < S")
      case True
      then have "2458 * 2199023255552 \<le> S * 2199023255552"
        by (intro mult_le_mono1) simp
      with True show ?thesis by simp
    next
      case False
      then have "S * 2199023255552 \<le> 2457 * 2199023255552"
        by (intro mult_le_mono1) simp
      with False show ?thesis by simp
    qed
    finally show ?thesis .
  qed
  show ?thesis by (simp only: a b)
qed

text \<open>
  Claim C4.  A run of \<open>detectVoice\<close> on the 128 bins of the analyser, with a channel open
  and a level above the broadcast floor, sends exactly one activity sample; it carries the
  level, and its \<open>isSpeaking\<close> is false when the level is below 0.15 and true when the
  level is at least 0.15.  The comparison in the code is the strict one, which the last
  conjunct records: \<open>isSpeaking\<close> is \<open>level > 0.15\<close>, false at 0.15 itself.  Both
  readings agree on every sample the loop produces, because no multiple of \<open>1 / 16384\<close>
  equals 0.15.
\<close>

theorem speaking_threshold:
  assumes "analyserRef s = Some an" and "fftSize an = 256"
    and "length dataArray = frequencyBinCount an"
    and "channelRef s = Some c" and "5 / 100 < normalizedLevel dataArray"
  shows "\<exists>s' payload. detectVoice dataArray s = Inr s'
          \<and> sent s' = sent s @ [(c, VoiceActivity payload)]
          \<and> payload_audioLevel payload = normalizedLevel dataArray
          \<and> (normalizedLevel dataArray < 15 / 100 \<longrightarrow> \<not> payload_isSpeaking payload)
          \<and> (15 / 100 \<le> normalizedLevel dataArray \<longrightarrow> payload_isSpeaking payload)
          \<and> payload_isSpeaking payload = (15 / 100 < normalizedLevel dataArray)"
proof -
  have len: "length dataArray = 128"
    using assms(2,3) by (simp add: frequencyBinCount_def)
  then have ne: "dataArray \<noteq> []" by auto
  have off: "normalizedLevel dataArray \<noteq> 15 / 100"
    using len by (rule level_off_boundary)
  show ?thesis
    using assms(1,4,5) ne off
    by (auto simp add: detectVoice_def requestAnimationFrame_def Let_def)
qed

theorem speaking_threshold_witness:
  "analyserRef alice_connected = Some \<lparr> fftSize = 256, smoothingTimeConstant = 8 / 10 \<rparr>
   \<and> length loud = frequencyBinCount \<lparr> fftSize = 256, smoothingTimeConstant = 8 / 10 \<rparr>
   \<and> length murmur = frequencyBinCount \<lparr> fftSize = 256, smoothingTimeConstant = 8 / 10 \<rparr>
   \<and> channelRef alice_connected = Some 0
   \<and> normalizedLevel loud = 1 / 2 \<and> normalizedLevel murmur = 5 / 64
   \<and> (\<exists>s' payload. detectVoice loud alice_connected = Inr s'
          \<and> sent s' = [(0, VoiceActivity payload)] \<and> payload_isSpeaking payload)
   \<and> (\<exists>s' payload. detectVoice murmur alice_connected = Inr s'
          \<and> sent s' = [(0, VoiceActivity payload)] \<and> \<not> payload_isSpeaking payload)"
proof -
  let ?an = "\<lparr> fftSize = 256, smoothingTimeConstant = 8 / 10 \<rparr>"
  have an: "analyserRef alice_connected = Some ?an" and fft: "fftSize ?an = 256"
    and ch: "channelRef alice_connected = Some 0"
    by (simp_all add: alice_connected_state)
  have len: "length loud = frequencyBinCount ?an" "length murmur = frequencyBinCount ?an"
    by (simp_all add: loud_def murmur_def frequencyBinCount_def)
  have lev: "normalizedLevel loud = 1 / 2" "normalizedLevel murmur = 5 / 64"
    by (simp_all add: loud_def murmur_def normalizedLevel_def average_def sum_list_replicate)
  have floor: "5 / 100 < normalizedLevel loud" "5 / 100 < normalizedLevel murmur"
    by (simp_all add: lev)
  show ?thesis
    using speaking_threshold [OF an fft len(1) ch floor(1)]
      speaking_threshold [OF an fft len(2) ch floor(2)] an len ch lev
    by (simp add: alice_connected_state) blast
qed

section \<open>Presence sync and the roster\<close>

lemma syncUsers_fields:
  shows "voiceUsers (syncUsers users t) = voiceUsers t"
    and "channelRef (syncUsers users t) = channelRef t"
  by (induction users arbitrary: t) (simp_all add: createPeer_def Let_def)

text \<open>
  Claim C10.  A presence-sync event replaces \<open>voiceUsers\<close> by one entry per listed key,
  each with \<open>isMuted = false\<close>, \<open>isSpeaking = false\<close> and \<open>audioLevel = 0\<close>; nothing
  of the previous roster enters the result.  The next activity broadcast of a listed peer
  other than the local one then overwrites the three fields of that peer's entry.
\<close>

theorem presence_sync_rebuilds_roster:
  assumes "channelRef s = Some c"
  shows "\<exists>s'. on_presence_sync keys s = Inr s'
     \<and> voiceUsers s' = map (\<lambda>key. \<lparr> user_id = key, user_nickname = key, user_isMuted = False,
                                     user_isSpeaking = False, user_audioLevel = 0 \<rparr>) keys
     \<and> (\<forall>user \<in> set (voiceUsers s').
           \<not> user_isMuted user \<and> \<not> user_isSpeaking user \<and> user_audioLevel user = 0)
     \<and> (\<forall>payload. payload_userId payload \<noteq> nickname s \<longrightarrow>
           voiceUsers (on_voice_activity payload s') =
             map (\<lambda>key. \<lparr> user_id = key, user_nickname = key,
                      user_isMuted = (key = payload_userId payload \<and> payload_isMuted payload),
                      user_isSpeaking = (key = payload_userId payload \<and> payload_isSpeaking payload),
                      user_audioLevel = (if key = payload_userId payload
                                         then payload_audioLevel payload else 0) \<rparr>) keys)"
  using assms
  by (auto simp add: on_presence_sync_def Let_def syncUsers_fields syncUsers_keeps_nickname
      on_voice_activity_def)

theorem presence_sync_rebuilds_roster_witness:
  "channelRef alice_talking_to_bob = Some 0
   \<and> voiceUsers alice_talking_to_bob
       = [\<lparr> user_id = ''alice'', user_nickname = ''alice'', user_isMuted = False,
             user_isSpeaking = False, user_audioLevel = 0 \<rparr>,
          \<lparr> user_id = ''bob'', user_nickname = ''bob'', user_isMuted = True,
             user_isSpeaking = True, user_audioLevel = 1 / 2 \<rparr>]
   \<and> (\<exists>s'. on_presence_sync [''alice'', ''bob''] alice_talking_to_bob = Inr s'
         \<and> voiceUsers s'
             = [\<lparr> user_id = ''alice'', user_nickname = ''alice'', user_isMuted = False,
                   user_isSpeaking = False, user_audioLevel = 0 \<rparr>,
                \<lparr> user_id = ''bob'', user_nickname = ''bob'', user_isMuted = False,
                   user_isSpeaking = False, user_audioLevel = 0 \<rparr>])"
proof -
  have h: "channelRef alice_talking_to_bob = Some 0"
    by (simp add: alice_talking_to_bob_def sample_defs model_defs)
  have v: "voiceUsers alice_talking_to_bob
       = [\<lparr> user_id = ''alice'', user_nickname = ''alice'', user_isMuted = False,
             user_isSpeaking = False, user_audioLevel = 0 \<rparr>,
          \<lparr> user_id = ''bob'', user_nickname = ''bob'', user_isMuted = True,
             user_isSpeaking = True, user_audioLevel = 1 / 2 \<rparr>]"
    by (simp add: alice_talking_to_bob_def sample_defs model_defs)
  show ?thesis
    using presence_sync_rebuilds_roster [OF h, of "[''alice'', ''bob'']"] h v by auto
qed

section \<open>Mute twice\<close>

text \<open>
  Claim C9, as amended.  With a local stream that has an audio track, two calls of
  \<open>toggleMute\<close> in succession, each through the callback of the latest render (there is a
  render between them, as between two clicks of the mute button): the first call flips the
  muted flag and sets the track's \<open>enabled\<close> to the old flag; the second returns the
  flag to its original value.  The track is assigned, not flipped: after the second call
  it is enabled exactly when the original flag was false.  That is the original
  enabled-state of the track whenever track and flag agreed at the start
  (\<open>enabled = \<not> muted\<close>), and then the whole stream is as it was.
\<close>

theorem toggleMute_twice:
  assumes "localStreamRef s = Some a" and "audioTracks (streams s a) = audioTrack # rest"
    and "s1 = toggleMute (isMuted s) s" and "s2 = toggleMute (isMuted s1) s1"
  shows "isMuted s1 = (\<not> isMuted s)
       \<and> audioTracks (streams s1 a) = audioTrack\<lparr> track_enabled := isMuted s \<rparr> # rest
       \<and> isMuted s2 = isMuted s
       \<and> localStreamRef s2 = Some a
       \<and> audioTracks (streams s2 a) = audioTrack\<lparr> track_enabled := \<not> isMuted s \<rparr> # rest
       \<and> (track_enabled audioTrack = (\<not> isMuted s) \<longrightarrow> streams s2 a = streams s a)"
proof -
  have 1: "localStreamRef s1 = Some a"
    and 2: "audioTracks (streams s1 a) = audioTrack\<lparr> track_enabled := isMuted s \<rparr> # rest"
    and 3: "isMuted s1 = (\<not> isMuted s)"
    and 4: "videoTracks (streams s1 a) = videoTracks (streams s a)"
    using assms(1,2) unfolding assms(3)
    by (simp_all add: toggleMute_def Let_def split: option.splits)
  have 5: "isMuted s2 = isMuted s"
    and 6: "localStreamRef s2 = Some a"
    and 7: "audioTracks (streams s2 a) = audioTrack\<lparr> track_enabled := \<not> isMuted s \<rparr> # rest"
    and 8: "videoTracks (streams s2 a) = videoTracks (streams s a)"
    using 1 2 3 4 unfolding assms(4)
    by (simp_all add: toggleMute_def [of _ s1] Let_def split: option.splits)
  have "streams s2 a = streams s a" if "track_enabled audioTrack = (\<not> isMuted s)"
  proof -
    have "audioTrack\<lparr> track_enabled := \<not> isMuted s \<rparr> = audioTrack"
      using that by simp
    then have "audioTracks (streams s2 a) = audioTracks (streams s a)"
      using 7 assms(2) by simp
    then show ?thesis using 8 by (simp add: media_stream.equality)
  qed
  then show ?thesis using 2 3 5 6 7 by blast
qed

theorem toggleMute_twice_witness:
  "localStreamRef alice_connected = Some 0
   \<and> audioTracks (streams alice_connected 0) = [\<lparr> track_enabled = True, track_ended = False \<rparr>]
   \<and> \<not> isMuted alice_connected
   \<and> isMuted (run [ToggleMute] alice_connected)
   \<and> audioTracks (streams (run [ToggleMute] alice_connected) 0)
       = [\<lparr> track_enabled = False, track_ended = False \<rparr>]
   \<and> \<not> isMuted (run [ToggleMute, ToggleMute] alice_connected)
   \<and> audioTracks (streams (run [ToggleMute, ToggleMute] alice_connected) 0)
       = [\<lparr> track_enabled = True, track_ended = False \<rparr>]
   \<and> streams (run [ToggleMute, ToggleMute] alice_connected) 0 = streams alice_connected 0"
proof -
  have h: "localStreamRef alice_connected = Some 0"
    "audioTracks (streams alice_connected 0) = [\<lparr> track_enabled = True, track_ended = False \<rparr>]"
    by (simp_all add: alice_connected_state microphone_def)
  have r1: "run [ToggleMute] alice_connected = toggleMute (isMuted alice_connected) alice_connected"
    by (simp add: run_def)
  have r2: "run [ToggleMute, ToggleMute] alice_connected
      = toggleMute (isMuted (run [ToggleMute] alice_connected)) (run [ToggleMute] alice_connected)"
    by (simp add: run_def)
  show ?thesis
    using toggleMute_twice [OF h r1 r2] h by (simp add: alice_connected_state)
qed

text \<open>
  Claim C9 as stated fails in two ways.  Called twice without a render in between, one
  and the same callback sees the old flag both times: starting unmuted with the track
  enabled, alice ends muted with the track disabled.  And where track and flag disagree
  at the start, two clicks do not restore the track: alice mutes, disconnects and
  connects again; she is still muted, her new track is enabled; two clicks later she is
  muted as before, but the track is disabled.
\<close>

theorem toggleMute_twice_counterexample:
  "\<not> isMuted alice_connected
   \<and> audioTracks (streams alice_connected 0) = [\<lparr> track_enabled = True, track_ended = False \<rparr>]
   \<and> isMuted (toggleMute (isMuted alice_connected)
                 (toggleMute (isMuted alice_connected) alice_connected))
   \<and> audioTracks (streams (toggleMute (isMuted alice_connected)
                 (toggleMute (isMuted alice_connected) alice_connected)) 0)
       = [\<lparr> track_enabled = False, track_ended = False \<rparr>]
   \<and> localStreamRef alice_reconnected = Some 1
   \<and> isMuted alice_reconnected
   \<and> audioTracks (streams alice_reconnected 1)
       = [\<lparr> track_enabled = True, track_ended = False \<rparr>]
   \<and> isMuted (run [ToggleMute, ToggleMute] alice_reconnected)
   \<and> audioTracks (streams (run [ToggleMute, ToggleMute] alice_reconnected) 1)
       = [\<lparr> track_enabled = False, track_ended = False \<rparr>]"
  by (simp add: alice_reconnected_def sample_defs model_defs)

section \<open>Peer errors\<close>

text \<open>
  Claim C6.  The connection of peer \<open>p\<close> reports an error (\<open>destroy_with_error\<close>: the
  library closes the connection and the hook's \<open>error\<close> and \<open>close\<close> handlers run).
  Afterwards the connection of \<open>p\<close>, and of no other peer, is closed; the peer map has no
  entry for the target of \<open>p\<close>; the target's remote audio output is unregistered and
  silenced (paused, without source, out of the document).  The entries of every other
  identity in the peer map and among the remote audio outputs are the same as before, no
  other audio element is touched, and \<open>isConnected\<close>, \<open>connectionError\<close>, the roster,
  the local stream and the channel are what they were.
\<close>

theorem peer_error_contained:
  "destroyedPeers (destroy_with_error p s) = insert (peer_id p) (destroyedPeers s)
   \<and> map_of (peersRef (destroy_with_error p s)) (peer_target p) = None
   \<and> map_of (remoteAudiosRef (destroy_with_error p s)) (peer_target p) = None
   \<and> (\<forall>a. map_of (remoteAudiosRef s) (peer_target p) = Some a
          \<longrightarrow> silenced (audios (destroy_with_error p s) a))
   \<and> (\<forall>u. u \<noteq> peer_target p \<longrightarrow>
          map_of (peersRef (destroy_with_error p s)) u = map_of (peersRef s) u
          \<and> map_of (remoteAudiosRef (destroy_with_error p s)) u = map_of (remoteAudiosRef s) u)
   \<and> (\<forall>b. map_of (remoteAudiosRef s) (peer_target p) \<noteq> Some b
          \<longrightarrow> audios (destroy_with_error p s) b = audios s b)
   \<and> isConnected (destroy_with_error p s) = isConnected s
   \<and> connectionError (destroy_with_error p s) = connectionError s
   \<and> voiceUsers (destroy_with_error p s) = voiceUsers s
   \<and> localStreamRef (destroy_with_error p s) = localStreamRef s
   \<and> channelRef (destroy_with_error p s) = channelRef s
   \<and> subscribed (destroy_with_error p s) = subscribed s"
  by (auto simp add: destroy_with_error_def on_peer_close_def on_peer_error_def destroy_def
      removeRemoteAudio_def delete_conv' silenced_def split: option.splits)

theorem peer_error_contained_witness:
  "map_of (peersRef alice_with_bob_and_carol) ''bob'' = Some bob_peer
   \<and> map_of (peersRef alice_with_bob_and_carol) ''carol'' = Some carol_peer
   \<and> map_of (remoteAudiosRef alice_with_bob_and_carol) ''bob'' = Some 0
   \<and> map_of (remoteAudiosRef alice_with_bob_and_carol) ''carol'' = Some 1
   \<and> \<not> silenced (audios alice_with_bob_and_carol 0)
   \<and> isConnected alice_with_bob_and_carol
   \<and> destroyedPeers alice_with_bob_and_carol = {}
   \<and> destroyedPeers (run [PeerError bob_peer] alice_with_bob_and_carol) = {0}
   \<and> map_of (peersRef (run [PeerError bob_peer] alice_with_bob_and_carol)) ''bob'' = None
   \<and> map_of (remoteAudiosRef (run [PeerError bob_peer] alice_with_bob_and_carol)) ''bob'' = None
   \<and> silenced (audios (run [PeerError bob_peer] alice_with_bob_and_carol) 0)
   \<and> map_of (peersRef (run [PeerError bob_peer] alice_with_bob_and_carol)) ''carol''
       = Some carol_peer
   \<and> map_of (remoteAudiosRef (run [PeerError bob_peer] alice_with_bob_and_carol)) ''carol''
       = Some 1
   \<and> audios (run [PeerError bob_peer] alice_with_bob_and_carol) 1
       = audios alice_with_bob_and_carol 1
   \<and> isConnected (run [PeerError bob_peer] alice_with_bob_and_carol)"
proof -
  let ?s = alice_with_bob_and_carol
  have st: "map_of (peersRef ?s) ''bob'' = Some bob_peer"
    "map_of (peersRef ?s) ''carol'' = Some carol_peer"
    "map_of (remoteAudiosRef ?s) ''bob'' = Some 0"
    "map_of (remoteAudiosRef ?s) ''carol'' = Some 1"
    "\<not> silenced (audios ?s 0)" "isConnected ?s" "destroyedPeers ?s = {}"
    "bob_peer \<in> set (createdPeers ?s)"
    by (simp_all add: alice_with_bob_and_carol_def carol_peer_def alice_with_bob_def
        bob_peer_def sample_defs model_defs silenced_def)
  have r: "run [PeerError bob_peer] ?s = destroy_with_error bob_peer ?s"
    using st(8) by (simp add: run_def)
  have t: "peer_target bob_peer = ''bob''" "peer_id bob_peer = 0"
    by (simp_all add: bob_peer_def)
  show ?thesis
    using peer_error_contained [of bob_peer ?s] st(1-7)
    by (simp add: r t)
qed

section \<open>Deafen\<close>

text \<open>The loop of \<open>toggleDeafen\<close> over the attached audio elements: every element it
  visits ends with the new volume.\<close>

lemma set_volumes_keeps:
  "audio_volume (h a) = v \<Longrightarrow>
     audio_volume (fold (\<lambda>(userId, b) h. h(b := (h b)\<lparr> audio_volume := v \<rparr>)) xs h a) = v"
  by (induction xs arbitrary: h) (auto split: prod.splits)

lemma set_volumes_sets:
  "(u, a) \<in> set xs \<Longrightarrow>
     audio_volume (fold (\<lambda>(userId, b) h. h(b := (h b)\<lparr> audio_volume := v \<rparr>)) xs h a) = v"
proof (induction xs arbitrary: h)
  case Nil
  then show ?case by simp
next
  case (Cons x xs)
  obtain u' b where x: "x = (u', b)" by (cases x)
  show ?case
  proof (cases "b = a")
    case True
    then have "audio_volume ((h(b := (h b)\<lparr> audio_volume := v \<rparr>)) a) = v"
      by simp
    then have "audio_volume
        (fold (\<lambda>(userId, b) h. h(b := (h b)\<lparr> audio_volume := v \<rparr>)) xs
           (h(b := (h b)\<lparr> audio_volume := v \<rparr>)) a) = v"
      by (rule set_volumes_keeps)
    then show ?thesis by (simp only: x fold_simps comp_apply case_prod_conv)
  next
    case False
    with Cons.prems x have "(u, a) \<in> set xs" by auto
    then have "audio_volume
        (fold (\<lambda>(userId, b) h. h(b := (h b)\<lparr> audio_volume := v \<rparr>)) xs
           (h(b := (h b)\<lparr> audio_volume := v \<rparr>)) a) = v"
      by (rule Cons.IH)
    then show ?thesis by (simp only: x fold_simps comp_apply case_prod_conv)
  qed
qed

lemma toggleDeafen_attached:
  "(u, a) \<in> set (remoteAudiosRef s) \<Longrightarrow>
     isDeafened (toggleDeafen s) = (\<not> isDeafened s)
     \<and> audio_volume (audios (toggleDeafen s) a) = (if isDeafened s then 1 else 0)"
  by (simp add: toggleDeafen_def Let_def set_volumes_sets)

lemma toggleDeafen_frozen:
  "playRemoteAudio_isDeafened (toggleDeafen s) = playRemoteAudio_isDeafened s"
  by (simp add: toggleDeafen_def Let_def)

lemma playRemoteAudio_volume:
  "map_of (remoteAudiosRef (playRemoteAudio remoteStream userId s)) userId = Some (audioCount s)
   \<and> audio_volume (audios (playRemoteAudio remoteStream userId s) (audioCount s))
       = (if playRemoteAudio_isDeafened s then 0 else 1)"
  by (simp add: playRemoteAudio_def removeRemoteAudio_def Let_def update_conv'
      split: option.splits)

text \<open>
  Claim C7.  \<open>toggleDeafen\<close> does set the volume of every attached output (lemma
  \<open>toggleDeafen_attached\<close>).  An output attached after a deafen does not honour the flag:
  alice deafens, then bob joins and his stream arrives; the \<open>stream\<close> handler runs the
  \<open>playRemoteAudio\<close> that \<open>createPeer\<close> closed over, which still reads
  \<open>isDeafened = false\<close>, and bob's audio element is created with volume 1 while alice
  is deafened.  An output that was attached before the deafen is at volume 0.
\<close>

theorem deafen_ignored_on_attach:
  "isDeafened alice_deafened_then_bob
   \<and> remoteAudiosRef alice_deafened_then_bob = [(''bob'', 0)]
   \<and> audio_srcObject (audios alice_deafened_then_bob 0) = Some 7
   \<and> audio_volume (audios alice_deafened_then_bob 0) = 1
   \<and> isDeafened (run [ToggleDeafen] alice_with_bob)
   \<and> audio_volume (audios (run [ToggleDeafen] alice_with_bob) 0) = 0"
  by (simp add: alice_deafened_then_bob_def sample_defs bob_peer_def alice_with_bob_def
      model_defs)

end
